theory Spec2Isabelle
  imports Main
begin

section \<open>String values and their two encodings\<close>

text \<open>
  The scores and members handled by \<^verbatim>\<open>t_sl.c\<close> are \<^verbatim>\<open>robj\<close> values of type
  \<^verbatim>\<open>REDIS_STRING\<close>.  Such an object either carries the bytes of an sds string
  (\<^verbatim>\<open>REDIS_ENCODING_RAW\<close>) or, after \<^verbatim>\<open>tryObjectEncoding\<close>, a C \<^verbatim>\<open>long\<close> stored in the
  pointer field (\<^verbatim>\<open>REDIS_ENCODING_INT\<close>).  Every command argument is a string object, so
  the branch of \<^verbatim>\<open>slCmp\<close> for objects of another type is not represented.
\<close>

datatype robj = RawEnc string | IntEnc int

fun is_int_encoded :: "robj \<Rightarrow> bool" where
  "is_int_encoded (IntEnc v) = True"
| "is_int_encoded (RawEnc s) = False"

text \<open>
  C integers, on the LP64 targets the server is built for: \<^verbatim>\<open>long\<close> has 64 bits and
  \<^verbatim>\<open>int\<close> has 32.  Values are kept as mathematical integers and every conversion
  writes its wrap-around out.
\<close>

definition wrap_long :: "int \<Rightarrow> int" where
  "wrap_long x = (x + 9223372036854775808) mod 18446744073709551616 - 9223372036854775808"

definition wrap_int :: "int \<Rightarrow> int" where
  "wrap_int x = (x + 2147483648) mod 4294967296 - 2147483648"

subsection \<open>The value API of the server\<close>

text \<open>
  The functions of this subsection live in the server's \<^verbatim>\<open>object.c\<close> and \<^verbatim>\<open>util.c\<close>,
  which are not part of the source at hand.  The spec describes a value as a byte string
  in one of two encodings, the encoder as turning short numeric strings into the integer
  encoding, and the comparison as lexicographic on the underlying byte strings.
\<close>

text \<open>
  Modelled from the spec: \<^verbatim>\<open>ll2string\<close>, the decimal numeral of a \<^verbatim>\<open>long\<close>.  It is
  the byte string under an integer encoding.
\<close>

definition digit_char :: "int \<Rightarrow> char" where
  "digit_char d = ''0123456789'' ! nat d"

function decimal_digits :: "int \<Rightarrow> string" where
  "decimal_digits n =
     (if n < 10 then [digit_char n] else decimal_digits (n div 10) @ [digit_char (n mod 10)])"
  by pat_completeness auto
termination
  by (relation "measure nat") auto

declare decimal_digits.simps [simp del]

definition ll2string :: "int \<Rightarrow> string" where
  "ll2string v = (if v < 0 then CHR ''-'' # decimal_digits (- v) else decimal_digits v)"

text \<open>
  Modelled from the spec: \<^verbatim>\<open>string2l\<close>, which reads a string as a \<^verbatim>\<open>long\<close>.  It
  accepts the strings that are the decimal numeral of a value in the range of the type.
\<close>

definition digit_value :: "char \<Rightarrow> int option" where
  "digit_value c =
     (if (48 :: int) \<le> of_char c \<and> (of_char c :: int) \<le> 57 then Some (of_char c - 48) else None)"

fun digits_value :: "string \<Rightarrow> int \<Rightarrow> int option" where
  "digits_value [] acc = Some acc"
| "digits_value (c # cs) acc =
     (case digit_value c of None \<Rightarrow> None | Some d \<Rightarrow> digits_value cs (acc * 10 + d))"

definition string2l :: "string \<Rightarrow> int option" where
  "string2l s =
     (case (case s of [] \<Rightarrow> None
            | c # cs \<Rightarrow> if c = CHR ''-'' then map_option uminus (digits_value cs 0)
                        else digits_value s 0) of
        None \<Rightarrow> None
      | Some v \<Rightarrow>
          if ll2string v = s \<and> - 9223372036854775808 \<le> v \<and> v \<le> 9223372036854775807
          then Some v else None)"

text \<open>
  Modelled from the spec: \<^verbatim>\<open>tryObjectEncoding\<close>, the encoder.  A raw string of at most
  21 bytes that \<^verbatim>\<open>string2l\<close> accepts becomes integer-encoded; any other object stays
  as it is.
\<close>

definition tryObjectEncoding :: "robj \<Rightarrow> robj" where
  "tryObjectEncoding o1 =
     (case o1 of
        IntEnc v \<Rightarrow> o1
      | RawEnc s \<Rightarrow>
          if length s > 21 then o1
          else (case string2l s of None \<Rightarrow> o1 | Some v \<Rightarrow> IntEnc v))"

text \<open>
  Modelled from the spec: \<^verbatim>\<open>compareStringObjects\<close> compares the byte strings of two
  objects as \<^verbatim>\<open>memcmp\<close> does, the shorter one first when it is a prefix of the other;
  only the sign of its result is used.  \<^verbatim>\<open>equalStringObjects\<close> is equality of the
  byte strings.
\<close>

fun obj_bytes :: "robj \<Rightarrow> string" where
  "obj_bytes (RawEnc s) = s"
| "obj_bytes (IntEnc v) = ll2string v"

fun memcmp_sds :: "string \<Rightarrow> string \<Rightarrow> int" where
  "memcmp_sds [] [] = 0"
| "memcmp_sds [] (y # ys) = - 1"
| "memcmp_sds (x # xs) [] = 1"
| "memcmp_sds (x # xs) (y # ys) =
     (if (of_char x :: int) < of_char y then - 1
      else if (of_char y :: int) < of_char x then 1
      else memcmp_sds xs ys)"

definition compareStringObjects :: "robj \<Rightarrow> robj \<Rightarrow> int" where
  "compareStringObjects a b = memcmp_sds (obj_bytes a) (obj_bytes b)"

definition equalStringObjects :: "robj \<Rightarrow> robj \<Rightarrow> bool" where
  "equalStringObjects a b = (obj_bytes a = obj_bytes b)"

subsection \<open>\<^verbatim>\<open>slCmp\<close>\<close>

text \<open>
  A null pointer is \<open>None\<close>.  With two integer encodings the difference of the two
  \<^verbatim>\<open>long\<close> payloads is stored in the \<^verbatim>\<open>int\<close> variable \<^verbatim>\<open>cmp\<close>.
\<close>

fun slCmp :: "robj option \<Rightarrow> robj option \<Rightarrow> int" where
  "slCmp None None = 0"
| "slCmp None (Some b) = 1"
| "slCmp (Some a) None = - 1"
| "slCmp (Some (IntEnc a)) (Some (IntEnc b)) = wrap_int (wrap_long (a - b))"
| "slCmp (Some a) (Some b) = compareStringObjects a b"

section \<open>Range specifications\<close>

text \<open>
  \<^verbatim>\<open>shared.minstring\<close> and \<^verbatim>\<open>shared.maxstring\<close> are objects created by the server at
  start-up; the functions that use them take the structure as a parameter.
\<close>

record sharedObjectsStruct =
  minstring :: robj
  maxstring :: robj

record slrangespec =
  min_spec :: robj
  max_spec :: robj
  minex :: bool
  maxex :: bool

text \<open>
  An sds string of length \<open>n\<close> is followed by a terminating NUL byte, so \<^verbatim>\<open>c[n]\<close>
  reads as \<open>0\<close>; the string itself may hold any byte, NUL included.
\<close>

definition sds_at :: "string \<Rightarrow> nat \<Rightarrow> char" where
  "sds_at c k = (if k < length c then c ! k else CHR 0x00)"

text \<open>\<^verbatim>\<open>REDIS_ERR\<close> is \<open>None\<close>; \<^verbatim>\<open>REDIS_OK\<close> returns \<^verbatim>\<open>*dest\<close> and \<^verbatim>\<open>*ex\<close>.\<close>

definition slParseRangeItem :: "sharedObjectsStruct \<Rightarrow> string \<Rightarrow> (robj \<times> bool) option" where
  "slParseRangeItem sh c =
     (if sds_at c 0 = CHR ''+'' then
        (if sds_at c 1 \<noteq> CHR 0x00 then None else Some (maxstring sh, False))
      else if sds_at c 0 = CHR ''-'' then
        (if sds_at c 1 \<noteq> CHR 0x00 then None else Some (minstring sh, False))
      else if sds_at c 0 = CHR ''('' then Some (RawEnc (drop 1 c), True)
      else if sds_at c 0 = CHR ''['' then Some (RawEnc (drop 1 c), False)
      else Some (RawEnc c, False))"

fun slParseRange :: "sharedObjectsStruct \<Rightarrow> robj \<Rightarrow> robj \<Rightarrow> slrangespec option" where
  "slParseRange sh (RawEnc a) (RawEnc b) =
     (case slParseRangeItem sh a of
        None \<Rightarrow> None
      | Some (mn, mnex) \<Rightarrow>
          (case slParseRangeItem sh b of
             None \<Rightarrow> None
           | Some (mx, mxex) \<Rightarrow>
               Some \<lparr>min_spec = mn, max_spec = mx, minex = mnex, maxex = mxex\<rparr>))"
| "slParseRange sh mn mx = None"

section \<open>Computations that may crash or run forever\<close>

text \<open>
  Dereferencing a null or dangling pointer, reading a slot outside an array and using
  an object through a pointer of the wrong type are undefined behaviour; the model
  stops with \<open>Crash\<close> there.  A loop that follows pointers need not terminate on an
  arbitrary heap, so every function built on such a loop returns an \<open>option\<close>:
  \<open>None\<close> means that the C function never returns.
\<close>

datatype 'a res = Ok 'a | Crash

definition ret :: "'a \<Rightarrow> 'a res option" where
  "ret x = Some (Ok x)"

definition crash :: "'a res option" where
  "crash = Some Crash"

definition bindR :: "'a res option \<Rightarrow> ('a \<Rightarrow> 'b res option) \<Rightarrow> 'b res option" where
  "bindR m f = (case m of None \<Rightarrow> None | Some Crash \<Rightarrow> Some Crash | Some (Ok a) \<Rightarrow> f a)"

section \<open>The skiplist\<close>

text \<open>
  Nodes live in a heap owned by the skiplist: the node at address \<open>a\<close> is
  \<open>nodes sl ! a\<close>, a pointer is an address or \<open>None\<close> for \<^verbatim>\<open>NULL\<close>, and
  \<^verbatim>\<open>x->level[i].forward\<close> is \<open>forward x ! i\<close>.  The list \<open>forward\<close> of a node is as long
  as the level it was allocated with.  \<^verbatim>\<open>slFreeNode\<close> gives memory back to the allocator
  and has no effect that a later read depends on, so a deleted node simply stays
  unreachable in the heap.
\<close>

record slNode =
  score :: "robj option"
  obj :: "robj option"
  backward :: "nat option"
  forward :: "nat option list"

record skiplist =
  header :: nat
  tail :: "nat option"
  length_sl :: int
  level :: nat
  nodes :: "slNode list"

text \<open>
  Modelled from the spec: \<^verbatim>\<open>SKIPLIST_MAXLEVEL\<close> and \<^verbatim>\<open>SKIPLIST_P\<close> are macros of
  \<^verbatim>\<open>redis.h\<close>; the spec gives 32 and 1/4.
\<close>

definition SKIPLIST_MAXLEVEL :: nat where
  "SKIPLIST_MAXLEVEL = 32"

definition node_at :: "skiplist \<Rightarrow> nat \<Rightarrow> slNode res option" where
  "node_at sl a = (if a < length (nodes sl) then ret (nodes sl ! a) else crash)"

definition deref :: "skiplist \<Rightarrow> nat option \<Rightarrow> slNode res option" where
  "deref sl p = (case p of None \<Rightarrow> crash | Some a \<Rightarrow> node_at sl a)"

definition get_forward :: "skiplist \<Rightarrow> nat \<Rightarrow> nat \<Rightarrow> nat option res option" where
  "get_forward sl a i =
     bindR (node_at sl a) (\<lambda>n. if i < length (forward n) then ret (forward n ! i) else crash)"

definition set_forward :: "skiplist \<Rightarrow> nat \<Rightarrow> nat \<Rightarrow> nat option \<Rightarrow> skiplist res option" where
  "set_forward sl a i p =
     bindR (node_at sl a) (\<lambda>n.
       if i < length (forward n)
       then ret (sl\<lparr>nodes := (nodes sl)[a := n\<lparr>forward := (forward n)[i := p]\<rparr>]\<rparr>)
       else crash)"

definition set_backward :: "skiplist \<Rightarrow> nat \<Rightarrow> nat option \<Rightarrow> skiplist res option" where
  "set_backward sl a p =
     bindR (node_at sl a) (\<lambda>n. ret (sl\<lparr>nodes := (nodes sl)[a := n\<lparr>backward := p\<rparr>]\<rparr>))"

text \<open>The array \<^verbatim>\<open>update\<close> holds an entry for each level the descent has filled.\<close>

definition update_at :: "nat list \<Rightarrow> nat \<Rightarrow> nat res option" where
  "update_at update i = (if i < length update then ret (update ! i) else crash)"

text \<open>
  \<^verbatim>\<open>slCreateNode\<close> allocates a node at a fresh address.  The allocator leaves the forward
  and backward pointers unset; \<^verbatim>\<open>slCreate\<close> and \<^verbatim>\<open>slInsert\<close> assign every one of them
  before any read, and the model starts them as \<^verbatim>\<open>NULL\<close>.
\<close>

definition slCreateNode :: "skiplist \<Rightarrow> nat \<Rightarrow> robj option \<Rightarrow> robj option \<Rightarrow> nat \<times> skiplist" where
  "slCreateNode sl lvl sc ob =
     (length (nodes sl),
      sl\<lparr>nodes := nodes sl @ [\<lparr>score = sc, obj = ob, backward = None, forward = replicate lvl None\<rparr>]\<rparr>)"

definition slCreate :: skiplist where
  "slCreate =
     \<lparr>header = 0, tail = None, length_sl = 0, level = 1,
      nodes = [\<lparr>score = None, obj = None, backward = None,
                forward = replicate SKIPLIST_MAXLEVEL None\<rparr>]\<rparr>"

subsection \<open>\<^verbatim>\<open>slRandomLevel\<close>\<close>

text \<open>
  The results of \<^verbatim>\<open>random()\<close> come from the environment: \<open>rnd k\<close> is the \<open>k\<close>-th
  result and \<open>pos\<close> counts the calls made so far.  \<^verbatim>\<open>(random() & 0xFFFF) < 0.25 * 0xFFFF\<close>
  compares an integer with 16383.75.
\<close>

partial_function (option) slRandomLevel_loop :: "(nat \<Rightarrow> int) \<Rightarrow> nat \<Rightarrow> nat \<Rightarrow> (nat \<times> nat) option" where
  "slRandomLevel_loop rnd pos lvl =
     (if 4 * (rnd pos mod 65536) < 65535
      then slRandomLevel_loop rnd (Suc pos) (lvl + 1)
      else Some (lvl, Suc pos))"

declare slRandomLevel_loop.simps [code]

definition slRandomLevel :: "(nat \<Rightarrow> int) \<Rightarrow> nat \<Rightarrow> (nat \<times> nat) option" where
  "slRandomLevel rnd pos =
     (case slRandomLevel_loop rnd pos 1 of
        None \<Rightarrow> None
      | Some (lvl, pos') \<Rightarrow>
          Some (if lvl < SKIPLIST_MAXLEVEL then lvl else SKIPLIST_MAXLEVEL, pos'))"

subsection \<open>\<^verbatim>\<open>slDeleteNode\<close>\<close>

text \<open>
  The \<^verbatim>\<open>for\<close> loop over the levels, with \<open>n\<close> levels left and \<open>i\<close> the next one, and
  the \<^verbatim>\<open>while\<close> loop that lowers \<^verbatim>\<open>sl->level\<close>, started at the current level.
\<close>

fun slDeleteNode_unlink :: "skiplist \<Rightarrow> nat \<Rightarrow> nat list \<Rightarrow> nat \<Rightarrow> nat \<Rightarrow> skiplist res option" where
  "slDeleteNode_unlink sl x update 0 i = ret sl"
| "slDeleteNode_unlink sl x update (Suc n) i =
     bindR (update_at update i) (\<lambda>u.
     bindR (get_forward sl u i) (\<lambda>f.
       if f = Some x
       then bindR (get_forward sl x i) (\<lambda>xf.
            bindR (set_forward sl u i xf) (\<lambda>sl1.
              slDeleteNode_unlink sl1 x update n (Suc i)))
       else slDeleteNode_unlink sl x update n (Suc i)))"

fun slDeleteNode_shrink :: "skiplist \<Rightarrow> nat \<Rightarrow> nat res option" where
  "slDeleteNode_shrink sl 0 = ret 0"
| "slDeleteNode_shrink sl (Suc n) =
     (if Suc n > 1
      then bindR (get_forward sl (header sl) n) (\<lambda>f.
             if f = None then slDeleteNode_shrink sl n else ret (Suc n))
      else ret (Suc n))"

definition slDeleteNode :: "skiplist \<Rightarrow> nat \<Rightarrow> nat list \<Rightarrow> skiplist res option" where
  "slDeleteNode sl x update =
     bindR (slDeleteNode_unlink sl x update (level sl) 0) (\<lambda>sl1.
     bindR (node_at sl1 x) (\<lambda>xn.
     bindR (get_forward sl1 x 0) (\<lambda>xf.
     bindR (case xf of
              Some f \<Rightarrow> set_backward sl1 f (backward xn)
            | None \<Rightarrow> ret (sl1\<lparr>tail := backward xn\<rparr>)) (\<lambda>sl2.
     bindR (slDeleteNode_shrink sl2 (level sl2)) (\<lambda>lvl.
       ret (sl2\<lparr>level := lvl,
                 length_sl := (length_sl sl2 + 18446744073709551615) mod 18446744073709551616\<rparr>))))))"

subsection \<open>\<^verbatim>\<open>slInsert\<close>\<close>

text \<open>
  The inner \<^verbatim>\<open>while\<close> loop of the descent at level \<open>i\<close>, started at node \<open>x\<close>; it
  returns the node the loop stops at.
\<close>

partial_function (option) slInsert_walk :: "skiplist \<Rightarrow> robj \<Rightarrow> robj \<Rightarrow> nat \<Rightarrow> nat \<Rightarrow> nat res option" where
  "slInsert_walk sl sc ob i x =
     (case get_forward sl x i of
        None \<Rightarrow> None
      | Some Crash \<Rightarrow> Some Crash
      | Some (Ok None) \<Rightarrow> Some (Ok x)
      | Some (Ok (Some f)) \<Rightarrow>
          (case node_at sl f of
             None \<Rightarrow> None
           | Some Crash \<Rightarrow> Some Crash
           | Some (Ok fn) \<Rightarrow>
               (let cmp = slCmp (score fn) (Some sc) in
                if cmp < 0 \<or> (cmp = 0 \<and> slCmp (obj fn) (Some ob) < 0)
                then slInsert_walk sl sc ob i f
                else Some (Ok x))))"

declare slInsert_walk.simps [code]

text \<open>
  The \<^verbatim>\<open>for\<close> loop over the levels \<open>n - 1, \<dots>, 0\<close>; the result is \<^verbatim>\<open>update\<close>, entry
  \<open>i\<close> at position \<open>i\<close>.
\<close>

fun slInsert_descend :: "skiplist \<Rightarrow> robj \<Rightarrow> robj \<Rightarrow> nat \<Rightarrow> nat \<Rightarrow> nat list res option" where
  "slInsert_descend sl sc ob 0 x = ret []"
| "slInsert_descend sl sc ob (Suc i) x =
     bindR (slInsert_walk sl sc ob i x) (\<lambda>x'.
     bindR (slInsert_descend sl sc ob i x') (\<lambda>update. ret (update @ [x'])))"

fun slInsert_link :: "skiplist \<Rightarrow> nat \<Rightarrow> nat list \<Rightarrow> nat \<Rightarrow> nat \<Rightarrow> skiplist res option" where
  "slInsert_link sl x update 0 i = ret sl"
| "slInsert_link sl x update (Suc n) i =
     bindR (update_at update i) (\<lambda>u.
     bindR (get_forward sl u i) (\<lambda>f.
     bindR (set_forward sl x i f) (\<lambda>sl1.
     bindR (set_forward sl1 u i (Some x)) (\<lambda>sl2.
       slInsert_link sl2 x update n (Suc i)))))"

text \<open>
  \<^verbatim>\<open>slInsert\<close> returns the skiplist after the insertion and the position reached in
  the random source; the node pointer it returns in C is not used by any caller.
\<close>

definition slInsert :: "(nat \<Rightarrow> int) \<Rightarrow> nat \<Rightarrow> skiplist \<Rightarrow> robj \<Rightarrow> robj \<Rightarrow> (skiplist \<times> nat) res option" where
  "slInsert rnd pos sl sc ob =
     bindR (slInsert_descend sl sc ob (level sl) (header sl)) (\<lambda>update0.
       case slRandomLevel rnd pos of
         None \<Rightarrow> None
       | Some (lvl, pos') \<Rightarrow>
           (let update = (if lvl > level sl
                          then update0 @ replicate (lvl - level sl) (header sl) else update0);
                sl1 = (if lvl > level sl then sl\<lparr>level := lvl\<rparr> else sl);
                (x, sl2) = slCreateNode sl1 lvl (Some sc) (Some ob)
            in bindR (slInsert_link sl2 x update lvl 0) (\<lambda>sl3.
               bindR (update_at update 0) (\<lambda>u0.
               bindR (set_backward sl3 x (if u0 = header sl3 then None else Some u0)) (\<lambda>sl4.
               bindR (get_forward sl4 x 0) (\<lambda>xf.
               bindR (case xf of
                        Some f \<Rightarrow> set_backward sl4 f (Some x)
                      | None \<Rightarrow> ret (sl4\<lparr>tail := Some x\<rparr>)) (\<lambda>sl5.
                 ret (sl5\<lparr>length_sl := (length_sl sl5 + 1) mod 18446744073709551616\<rparr>, pos'))))))))"

subsection \<open>\<^verbatim>\<open>slDelete\<close>\<close>

text \<open>
  \<^verbatim>\<open>compareStringObjects\<close> and \<^verbatim>\<open>equalStringObjects\<close> read through the object
  pointer they are given.
\<close>

definition obj_of :: "robj option \<Rightarrow> robj res option" where
  "obj_of p = (case p of None \<Rightarrow> crash | Some v \<Rightarrow> ret v)"

partial_function (option) slDelete_walk :: "skiplist \<Rightarrow> robj \<Rightarrow> robj \<Rightarrow> nat \<Rightarrow> nat \<Rightarrow> nat res option" where
  "slDelete_walk sl sc ob i x =
     (case get_forward sl x i of
        None \<Rightarrow> None
      | Some Crash \<Rightarrow> Some Crash
      | Some (Ok None) \<Rightarrow> Some (Ok x)
      | Some (Ok (Some f)) \<Rightarrow>
          (case node_at sl f of
             None \<Rightarrow> None
           | Some Crash \<Rightarrow> Some Crash
           | Some (Ok fn) \<Rightarrow>
               if slCmp (score fn) (Some sc) < 0 then slDelete_walk sl sc ob i f
               else if slCmp (score fn) (Some sc) = 0 then
                 (case obj fn of
                    None \<Rightarrow> Some Crash
                  | Some fo \<Rightarrow>
                      if compareStringObjects fo ob < 0 then slDelete_walk sl sc ob i f
                      else Some (Ok x))
               else Some (Ok x)))"

declare slDelete_walk.simps [code]

fun slDelete_descend :: "skiplist \<Rightarrow> robj \<Rightarrow> robj \<Rightarrow> nat \<Rightarrow> nat \<Rightarrow> (nat \<times> nat list) res option" where
  "slDelete_descend sl sc ob 0 x = ret (x, [])"
| "slDelete_descend sl sc ob (Suc i) x =
     bindR (slDelete_walk sl sc ob i x) (\<lambda>x'.
     bindR (slDelete_descend sl sc ob i x') (\<lambda>(x'', update). ret (x'', update @ [x'])))"

text \<open>The result is the skiplist and the value returned in C, 1 or 0.\<close>

definition slDelete :: "skiplist \<Rightarrow> robj \<Rightarrow> robj \<Rightarrow> (skiplist \<times> int) res option" where
  "slDelete sl sc ob =
     bindR (slDelete_descend sl sc ob (level sl) (header sl)) (\<lambda>(x0, update).
     bindR (get_forward sl x0 0) (\<lambda>x.
       case x of
         None \<Rightarrow> ret (sl, 0)
       | Some xa \<Rightarrow>
           bindR (node_at sl xa) (\<lambda>xn.
             if slCmp (Some sc) (score xn) = 0
             then bindR (obj_of (obj xn)) (\<lambda>xo.
                    if equalStringObjects xo ob
                    then bindR (slDeleteNode sl xa update) (\<lambda>sl'. ret (sl', 1))
                    else ret (sl, 0))
             else ret (sl, 0))))"

subsection \<open>\<^verbatim>\<open>slDeleteScore\<close>\<close>

partial_function (option) slDeleteScore_walk :: "skiplist \<Rightarrow> robj \<Rightarrow> nat \<Rightarrow> nat \<Rightarrow> nat res option" where
  "slDeleteScore_walk sl sc i x =
     (case get_forward sl x i of
        None \<Rightarrow> None
      | Some Crash \<Rightarrow> Some Crash
      | Some (Ok None) \<Rightarrow> Some (Ok x)
      | Some (Ok (Some f)) \<Rightarrow>
          (case node_at sl f of
             None \<Rightarrow> None
           | Some Crash \<Rightarrow> Some Crash
           | Some (Ok fn) \<Rightarrow>
               if slCmp (score fn) (Some sc) < 0 then slDeleteScore_walk sl sc i f
               else Some (Ok x)))"

declare slDeleteScore_walk.simps [code]

fun slDeleteScore_descend :: "skiplist \<Rightarrow> robj \<Rightarrow> nat \<Rightarrow> nat \<Rightarrow> (nat \<times> nat list) res option" where
  "slDeleteScore_descend sl sc 0 x = ret (x, [])"
| "slDeleteScore_descend sl sc (Suc i) x =
     bindR (slDeleteScore_walk sl sc i x) (\<lambda>x'.
     bindR (slDeleteScore_descend sl sc i x') (\<lambda>(x'', update). ret (x'', update @ [x'])))"

partial_function (option) slDeleteScore_loop :: "skiplist \<Rightarrow> robj \<Rightarrow> nat list \<Rightarrow> nat option \<Rightarrow> int \<Rightarrow> (skiplist \<times> int) res option" where
  "slDeleteScore_loop sl sc update x deleted =
     (case x of
        None \<Rightarrow> Some (Ok (sl, deleted))
      | Some xa \<Rightarrow>
          (case node_at sl xa of
             None \<Rightarrow> None
           | Some Crash \<Rightarrow> Some Crash
           | Some (Ok xn) \<Rightarrow>
               if slCmp (Some sc) (score xn) = 0 then
                 (case get_forward sl xa 0 of
                    None \<Rightarrow> None
                  | Some Crash \<Rightarrow> Some Crash
                  | Some (Ok next) \<Rightarrow>
                      (case slDeleteNode sl xa update of
                         None \<Rightarrow> None
                       | Some Crash \<Rightarrow> Some Crash
                       | Some (Ok sl') \<Rightarrow>
                           slDeleteScore_loop sl' sc update next (wrap_int (deleted + 1))))
               else Some (Ok (sl, deleted))))"

declare slDeleteScore_loop.simps [code]

definition slDeleteScore :: "skiplist \<Rightarrow> robj \<Rightarrow> (skiplist \<times> int) res option" where
  "slDeleteScore sl sc =
     bindR (slDeleteScore_descend sl sc (level sl) (header sl)) (\<lambda>(x0, update).
     bindR (get_forward sl x0 0) (\<lambda>x. slDeleteScore_loop sl sc update x 0))"

subsection \<open>\<^verbatim>\<open>slSearchSmallestNode\<close>\<close>

text \<open>
  The searches leave their loops in three ways: the \<^verbatim>\<open>while\<close> condition fails or a
  \<^verbatim>\<open>break\<close> is taken, and the descent goes on from the current node (\<open>Next\<close>); or a
  \<^verbatim>\<open>return\<close> ends the function (\<open>Return\<close>).
\<close>

datatype 'a exit = Next nat | Return 'a

partial_function (option) slSearchSmallestNode_backtrack :: "skiplist \<Rightarrow> robj \<Rightarrow> nat \<Rightarrow> nat res option" where
  "slSearchSmallestNode_backtrack sl sc x =
     (case node_at sl x of
        None \<Rightarrow> None
      | Some Crash \<Rightarrow> Some Crash
      | Some (Ok xn) \<Rightarrow>
          (case backward xn of
             None \<Rightarrow> Some (Ok x)
           | Some b \<Rightarrow>
               if slCmp (score xn) (Some sc) > 0
               then slSearchSmallestNode_backtrack sl sc b
               else Some (Ok x)))"

declare slSearchSmallestNode_backtrack.simps [code]

partial_function (option) slSearchSmallestNode_walk :: "skiplist \<Rightarrow> robj \<Rightarrow> nat \<Rightarrow> nat \<Rightarrow> nat option exit res option" where
  "slSearchSmallestNode_walk sl sc i x =
     (case get_forward sl x i of
        None \<Rightarrow> None
      | Some Crash \<Rightarrow> Some Crash
      | Some (Ok None) \<Rightarrow> Some (Ok (Next x))
      | Some (Ok (Some f)) \<Rightarrow>
          (case node_at sl f of
             None \<Rightarrow> None
           | Some Crash \<Rightarrow> Some Crash
           | Some (Ok fn) \<Rightarrow>
               (let cmp = slCmp (score fn) (Some sc) in
                if cmp < 0 then slSearchSmallestNode_walk sl sc i f
                else if cmp = 0 then
                  bindR (slSearchSmallestNode_backtrack sl sc f) (\<lambda>r. ret (Return (Some r)))
                else Some (Ok (Next x)))))"

declare slSearchSmallestNode_walk.simps [code]

fun slSearchSmallestNode_levels :: "skiplist \<Rightarrow> robj \<Rightarrow> nat \<Rightarrow> nat \<Rightarrow> nat option res option" where
  "slSearchSmallestNode_levels sl sc 0 x = ret None"
| "slSearchSmallestNode_levels sl sc (Suc i) x =
     bindR (slSearchSmallestNode_walk sl sc i x) (\<lambda>e.
       case e of
         Return r \<Rightarrow> ret r
       | Next x' \<Rightarrow> slSearchSmallestNode_levels sl sc i x')"

definition slSearchSmallestNode :: "skiplist \<Rightarrow> robj \<Rightarrow> nat option res option" where
  "slSearchSmallestNode sl sc = slSearchSmallestNode_levels sl sc (level sl) (header sl)"

subsection \<open>\<^verbatim>\<open>slRangeSmallestNode\<close> and \<^verbatim>\<open>slRangeLowEnd\<close>\<close>

text \<open>
  The out-parameter \<^verbatim>\<open>*foundexactvalue\<close> is threaded through: the functions take the
  value the caller's variable holds and return the value it holds afterwards, next to
  the node pointer.
\<close>

partial_function (option) slRangeSmallestNode_backtrack :: "skiplist \<Rightarrow> slrangespec \<Rightarrow> nat \<Rightarrow> nat res option" where
  "slRangeSmallestNode_backtrack sl rspec x =
     (if minex rspec then Some (Ok x)
      else
        (case node_at sl x of
           None \<Rightarrow> None
         | Some Crash \<Rightarrow> Some Crash
         | Some (Ok xn) \<Rightarrow>
             (case backward xn of
                None \<Rightarrow> Some (Ok x)
              | Some b \<Rightarrow>
                  if b \<noteq> header sl then
                    (case node_at sl b of
                       None \<Rightarrow> None
                     | Some Crash \<Rightarrow> Some Crash
                     | Some (Ok bn) \<Rightarrow>
                         if slCmp (score bn) (Some (min_spec rspec)) = 0
                         then slRangeSmallestNode_backtrack sl rspec b
                         else Some (Ok x))
                  else Some (Ok x))))"

declare slRangeSmallestNode_backtrack.simps [code]

partial_function (option) slRangeSmallestNode_walk :: "skiplist \<Rightarrow> slrangespec \<Rightarrow> int \<Rightarrow> nat \<Rightarrow> nat \<Rightarrow> (nat option \<times> int) exit res option" where
  "slRangeSmallestNode_walk sl rspec fev i x =
     (case get_forward sl x i of
        None \<Rightarrow> None
      | Some Crash \<Rightarrow> Some Crash
      | Some (Ok None) \<Rightarrow> Some (Ok (Next x))
      | Some (Ok (Some f)) \<Rightarrow>
          (case node_at sl f of
             None \<Rightarrow> None
           | Some Crash \<Rightarrow> Some Crash
           | Some (Ok fn) \<Rightarrow>
               (let cmp = slCmp (score fn) (Some (min_spec rspec)) in
                if cmp < 0 then slRangeSmallestNode_walk sl rspec fev i f
                else if cmp = 0 then
                  bindR (slRangeSmallestNode_backtrack sl rspec f) (\<lambda>r. ret (Return (Some r, 1)))
                else if i = 0 \<and> cmp > 0 then Some (Ok (Return (Some f, 0)))
                else Some (Ok (Next x)))))"

declare slRangeSmallestNode_walk.simps [code]

fun slRangeSmallestNode_levels :: "skiplist \<Rightarrow> slrangespec \<Rightarrow> int \<Rightarrow> nat \<Rightarrow> nat \<Rightarrow> (nat option \<times> int) res option" where
  "slRangeSmallestNode_levels sl rspec fev 0 x = ret (None, fev)"
| "slRangeSmallestNode_levels sl rspec fev (Suc i) x =
     bindR (slRangeSmallestNode_walk sl rspec fev i x) (\<lambda>e.
       case e of
         Return r \<Rightarrow> ret r
       | Next x' \<Rightarrow> slRangeSmallestNode_levels sl rspec fev i x')"

definition slRangeSmallestNode :: "skiplist \<Rightarrow> slrangespec \<Rightarrow> int \<Rightarrow> (nat option \<times> int) res option" where
  "slRangeSmallestNode sl rspec fev =
     bindR (get_forward sl (header sl) 0) (\<lambda>first.
     bindR (deref sl first) (\<lambda>fn.
       if slCmp (score fn) (Some (max_spec rspec)) > 0 then ret (None, fev)
       else slRangeSmallestNode_levels sl rspec fev (level sl) (header sl)))"

text \<open>
  \<^verbatim>\<open>slRangeLowEnd\<close> declares \<^verbatim>\<open>int foundexactvalue;\<close> without an initial value.  What
  the variable holds before \<^verbatim>\<open>slRangeSmallestNode\<close> assigns it is whatever the stack
  slot held: the parameter \<open>stack\<close>.
\<close>

partial_function (option) slRangeLowEnd_loop :: "skiplist \<Rightarrow> slrangespec \<Rightarrow> int \<Rightarrow> nat option \<Rightarrow> nat option res option" where
  "slRangeLowEnd_loop sl rspec fev smallest =
     (if minex rspec \<and> fev \<noteq> 0 then
        (case deref sl smallest of
           None \<Rightarrow> None
         | Some Crash \<Rightarrow> Some Crash
         | Some (Ok sn) \<Rightarrow>
             if slCmp (score sn) (Some (min_spec rspec)) = 0 then
               (if 0 < length (forward sn) then
                  (case forward sn ! 0 of
                     None \<Rightarrow> Some (Ok None)
                   | Some f \<Rightarrow> slRangeLowEnd_loop sl rspec fev (Some f))
                else Some Crash)
             else Some (Ok smallest))
      else Some (Ok smallest))"

declare slRangeLowEnd_loop.simps [code]

definition slRangeLowEnd :: "int \<Rightarrow> skiplist \<Rightarrow> slrangespec \<Rightarrow> nat option res option" where
  "slRangeLowEnd stack sl rspec =
     bindR (slRangeSmallestNode sl rspec stack) (\<lambda>(smallest, foundexactvalue).
       slRangeLowEnd_loop sl rspec foundexactvalue smallest)"

subsection \<open>\<^verbatim>\<open>slRangeLargestNode\<close> and \<^verbatim>\<open>slRangeHighEnd\<close>\<close>

text \<open>
  The test \<^verbatim>\<open>x->level[i].forward->level[i].forward && slCmp(\<dots>->score, range->max) == 0\<close>
  on the node \<open>fn\<close> that \<^verbatim>\<open>x->level[i].forward\<close> points to.
\<close>

definition next_has_max_score :: "skiplist \<Rightarrow> slrangespec \<Rightarrow> slNode \<Rightarrow> nat \<Rightarrow> bool res option" where
  "next_has_max_score sl rspec fn i =
     (if i < length (forward fn) then
        (case forward fn ! i of
           None \<Rightarrow> ret False
         | Some ff \<Rightarrow>
             bindR (node_at sl ff) (\<lambda>ffn. ret (slCmp (score ffn) (Some (max_spec rspec)) = 0)))
      else crash)"

partial_function (option) slRangeLargestNode_walk :: "skiplist \<Rightarrow> slrangespec \<Rightarrow> nat \<Rightarrow> nat \<Rightarrow> (nat option \<times> int) exit res option" where
  "slRangeLargestNode_walk sl rspec i x =
     (case get_forward sl x i of
        None \<Rightarrow> None
      | Some Crash \<Rightarrow> Some Crash
      | Some (Ok None) \<Rightarrow> Some (Ok (Next x))
      | Some (Ok (Some f)) \<Rightarrow>
          (case node_at sl f of
             None \<Rightarrow> None
           | Some Crash \<Rightarrow> Some Crash
           | Some (Ok fn) \<Rightarrow>
               (let cmp = slCmp (score fn) (Some (max_spec rspec)) in
                if cmp < 0 then slRangeLargestNode_walk sl rspec i f
                else if maxex rspec \<and> cmp = 0 then Some (Ok (Return (Some f, 1)))
                else if \<not> maxex rspec \<and> cmp = 0 then
                  (case next_has_max_score sl rspec fn i of
                     None \<Rightarrow> None
                   | Some Crash \<Rightarrow> Some Crash
                   | Some (Ok again) \<Rightarrow>
                       if again then slRangeLargestNode_walk sl rspec i f
                       else if i = 0 then Some (Ok (Return (Some f, 1)))
                       else Some (Ok (Next x)))
                else if cmp > 0 \<and> i = 0 then Some (Ok (Return (Some f, 0)))
                else Some (Ok (Next x)))))"

declare slRangeLargestNode_walk.simps [code]

fun slRangeLargestNode_levels :: "skiplist \<Rightarrow> slrangespec \<Rightarrow> int \<Rightarrow> nat \<Rightarrow> nat \<Rightarrow> (nat option \<times> int) res option" where
  "slRangeLargestNode_levels sl rspec fev 0 x = ret (None, fev)"
| "slRangeLargestNode_levels sl rspec fev (Suc i) x =
     bindR (slRangeLargestNode_walk sl rspec i x) (\<lambda>e.
       case e of
         Return r \<Rightarrow> ret r
       | Next x' \<Rightarrow> slRangeLargestNode_levels sl rspec fev i x')"

definition slRangeLargestNode :: "skiplist \<Rightarrow> slrangespec \<Rightarrow> int \<Rightarrow> (nat option \<times> int) res option" where
  "slRangeLargestNode sl rspec fev =
     bindR (deref sl (tail sl)) (\<lambda>tn.
       if slCmp (score tn) (Some (max_spec rspec)) < 0 then ret (tail sl, fev)
       else slRangeLargestNode_levels sl rspec fev (level sl) (header sl))"

partial_function (option) slRangeHighEnd_loop :: "skiplist \<Rightarrow> slrangespec \<Rightarrow> int \<Rightarrow> nat option \<Rightarrow> nat option res option" where
  "slRangeHighEnd_loop sl rspec fev largest =
     (if maxex rspec \<and> fev \<noteq> 0 then
        (case deref sl largest of
           None \<Rightarrow> None
         | Some Crash \<Rightarrow> Some Crash
         | Some (Ok ln) \<Rightarrow>
             if slCmp (score ln) (Some (max_spec rspec)) = 0 then
               (case backward ln of
                  None \<Rightarrow> Some (Ok None)
                | Some b \<Rightarrow> slRangeHighEnd_loop sl rspec fev (Some b))
             else Some (Ok largest))
      else Some (Ok largest))"

declare slRangeHighEnd_loop.simps [code]

definition slRangeHighEnd :: "skiplist \<Rightarrow> slrangespec \<Rightarrow> nat option res option" where
  "slRangeHighEnd sl rspec =
     bindR (slRangeLargestNode sl rspec 0) (\<lambda>(largest, foundexactvalue).
       slRangeHighEnd_loop sl rspec foundexactvalue largest)"

section \<open>The command layer\<close>

subsection \<open>Objects in the key space, replies and the client\<close>

text \<open>
  A value stored under a key is an \<^verbatim>\<open>robj\<close> with a type tag, an encoding tag and a
  pointer.  A skiplist container has type \<^verbatim>\<open>REDIS_LIST\<close>, encoding
  \<^verbatim>\<open>REDIS_ENCODING_SKIPLIST\<close> and points to a \<^verbatim>\<open>skiplist\<close>; what other objects point to
  is not modelled.
\<close>

datatype obj_type = REDIS_STRING | REDIS_LIST | REDIS_SET | REDIS_ZSET | REDIS_HASH

datatype obj_encoding =
  REDIS_ENCODING_RAW | REDIS_ENCODING_INT | REDIS_ENCODING_HT | REDIS_ENCODING_ZIPMAP
| REDIS_ENCODING_LINKEDLIST | REDIS_ENCODING_ZIPLIST | REDIS_ENCODING_INTSET
| REDIS_ENCODING_SKIPLIST

datatype obj_ptr = SkiplistPtr skiplist | OtherPtr

record valobj =
  vtype :: obj_type
  vencoding :: obj_encoding
  vptr :: obj_ptr

datatype reply =
  SyntaxErr | WrongTypeErr | EmptyMultiBulk
| ReplyLongLong int | ReplyDouble int | ReplyError string
| MultiBulkLen int | ReplyBulk robj

datatype notify_class = REDIS_NOTIFY_LIST | REDIS_NOTIFY_GENERIC

datatype event = SignalModifiedKey string | NotifyKeyspaceEvent notify_class string string

text \<open>
  The record holds what a command reads and writes: the arguments \<^verbatim>\<open>c->argv\<close> (with
  \<^verbatim>\<open>c->argc\<close> their number), the key space \<^verbatim>\<open>c->db\<close>, the replies queued for the
  client, the counter \<^verbatim>\<open>server.dirty\<close>, the notifications sent, and the environment:
  the shared objects, the results of \<^verbatim>\<open>random()\<close> with the number of calls made, and
  the content of the stack slot that \<^verbatim>\<open>slRangeLowEnd\<close> leaves uninitialised.
\<close>

record redisClient =
  argv :: "robj list"
  db :: "string \<rightharpoonup> valobj"
  replies :: "reply list"
  dirty :: nat
  events :: "event list"
  shared :: sharedObjectsStruct
  random_src :: "nat \<Rightarrow> int"
  random_pos :: nat
  stack_slot :: int

definition argc :: "redisClient \<Rightarrow> nat" where
  "argc c = length (argv c)"

definition arg :: "redisClient \<Rightarrow> nat \<Rightarrow> robj res option" where
  "arg c i = (if i < length (argv c) then ret (argv c ! i) else crash)"

text \<open>
  Modelled from the spec: the key/value table of the server, with its operations
  \<^verbatim>\<open>lookupKeyRead\<close>, \<^verbatim>\<open>lookupKeyWrite\<close>, \<^verbatim>\<open>dbAdd\<close> and \<^verbatim>\<open>dbDelete\<close>, is a map from
  the bytes of the key to the stored object.
\<close>

definition lookupKeyRead :: "redisClient \<Rightarrow> robj \<Rightarrow> valobj option" where
  "lookupKeyRead c key = db c (obj_bytes key)"

definition lookupKeyWrite :: "redisClient \<Rightarrow> robj \<Rightarrow> valobj option" where
  "lookupKeyWrite c key = db c (obj_bytes key)"

definition dbAdd :: "redisClient \<Rightarrow> robj \<Rightarrow> valobj \<Rightarrow> redisClient" where
  "dbAdd c key v = c\<lparr>db := (db c)(obj_bytes key \<mapsto> v)\<rparr>"

definition dbDelete :: "redisClient \<Rightarrow> robj \<Rightarrow> redisClient" where
  "dbDelete c key = c\<lparr>db := (db c)(obj_bytes key := None)\<rparr>"

text \<open>
  Modelled from the spec: \<^verbatim>\<open>createSkiplistObject\<close> wraps a new skiplist in an object
  with the list type tag and the skiplist encoding tag.
\<close>

definition createSkiplistObject :: valobj where
  "createSkiplistObject =
     \<lparr>vtype = REDIS_LIST, vencoding = REDIS_ENCODING_SKIPLIST, vptr = SkiplistPtr slCreate\<rparr>"

text \<open>
  Modelled from the spec: the reply functions of the server append to the queue of the
  client.  A deferred multi-bulk length is a placeholder in the queue, set later.  The
  notification functions append to the list of events.
\<close>

definition addReply :: "redisClient \<Rightarrow> reply \<Rightarrow> redisClient" where
  "addReply c r = c\<lparr>replies := replies c @ [r]\<rparr>"

definition addDeferredMultiBulkLength :: "redisClient \<Rightarrow> nat \<times> redisClient" where
  "addDeferredMultiBulkLength c = (length (replies c), c\<lparr>replies := replies c @ [MultiBulkLen 0]\<rparr>)"

definition setDeferredMultiBulkLength :: "redisClient \<Rightarrow> nat \<Rightarrow> int \<Rightarrow> redisClient" where
  "setDeferredMultiBulkLength c node len = c\<lparr>replies := (replies c)[node := MultiBulkLen len]\<rparr>"

definition addEvent :: "redisClient \<Rightarrow> event \<Rightarrow> redisClient" where
  "addEvent c e = c\<lparr>events := events c @ [e]\<rparr>"

text \<open>The test \<^verbatim>\<open>slobj->type != REDIS_LIST || slobj->encoding != REDIS_ENCODING_SKIPLIST\<close>.\<close>

definition wrong_type :: "valobj \<Rightarrow> bool" where
  "wrong_type slobj = (vtype slobj \<noteq> REDIS_LIST \<or> vencoding slobj \<noteq> REDIS_ENCODING_SKIPLIST)"

text \<open>
  \<^verbatim>\<open>sl = slobj->ptr\<close> converts the pointer without a check; using the result when the
  object holds no skiplist is undefined.
\<close>

definition skiplist_of :: "valobj \<Rightarrow> skiplist res option" where
  "skiplist_of slobj = (case vptr slobj of SkiplistPtr sl \<Rightarrow> ret sl | OtherPtr \<Rightarrow> crash)"

text \<open>The skiplist is changed in place through the pointer the stored object holds.\<close>

definition store_skiplist :: "redisClient \<Rightarrow> robj \<Rightarrow> skiplist \<Rightarrow> redisClient" where
  "store_skiplist c key sl =
     (case db c (obj_bytes key) of
        None \<Rightarrow> c
      | Some slobj \<Rightarrow> c\<lparr>db := (db c)(obj_bytes key \<mapsto> slobj\<lparr>vptr := SkiplistPtr sl\<rparr>)\<rparr>)"

subsection \<open>\<^verbatim>\<open>sladdCommand\<close>\<close>

text \<open>
  The loop over the pairs, with \<open>n\<close> pairs left and \<open>j\<close> the index of the next one.
  The skiplist pointer is \<open>slp\<close>; it is used first in the call of \<^verbatim>\<open>slDelete\<close>.
\<close>

fun sladdCommand_loop :: "redisClient \<Rightarrow> skiplist res option \<Rightarrow> int \<Rightarrow> nat \<Rightarrow> nat \<Rightarrow> (redisClient \<times> skiplist res option \<times> int) res option" where
  "sladdCommand_loop c slp added 0 j = ret (c, slp, added)"
| "sladdCommand_loop c slp added (Suc n) j =
     bindR (arg c (2 + j * 2)) (\<lambda>a1.
     bindR (arg c (3 + j * 2)) (\<lambda>a2.
       let sc = tryObjectEncoding a1;
           ele = tryObjectEncoding a2;
           c1 = c\<lparr>argv := (argv c)[2 + j * 2 := sc, 3 + j * 2 := ele]\<rparr>
       in bindR slp (\<lambda>sl.
          bindR (slDelete sl sc ele) (\<lambda>(sl1, d).
          bindR (slInsert (random_src c1) (random_pos c1) sl1 sc ele) (\<lambda>(sl2, pos).
            sladdCommand_loop (c1\<lparr>random_pos := pos, dirty := dirty c1 + 1\<rparr>) (ret sl2)
              (wrap_int (wrap_int (added - d) + 1)) n (Suc j))))))"

definition sladdCommand :: "redisClient \<Rightarrow> redisClient res option" where
  "sladdCommand c =
     (if argc c mod 2 \<noteq> 0 then ret (addReply c SyntaxErr)
      else
        bindR (arg c 1) (\<lambda>key.
          let (c1, slobj) =
                (case lookupKeyWrite c key of
                   None \<Rightarrow> (dbAdd c key createSkiplistObject, createSkiplistObject)
                 | Some slobj \<Rightarrow>
                     (if wrong_type slobj then addReply c WrongTypeErr else c, slobj));
              numelements = (argc c - 2) div 2
          in bindR (sladdCommand_loop c1 (skiplist_of slobj) 0 numelements 0) (\<lambda>(c2, slp, added).
               let c3 = (case slp of Some (Ok sl) \<Rightarrow> store_skiplist c2 key sl | _ \<Rightarrow> c2);
                   c4 = addReply c3 (ReplyLongLong added)
               in ret (if added \<noteq> 0
                       then addEvent (addEvent c4 (SignalModifiedKey (obj_bytes key)))
                              (NotifyKeyspaceEvent REDIS_NOTIFY_LIST ''sladd'' (obj_bytes key))
                       else c4))))"

subsection \<open>\<^verbatim>\<open>slremCommand\<close>\<close>

text \<open>
  The loop over the scores, with \<open>n\<close> scores left and \<open>i\<close> the index of the next one;
  it returns the client, the skiplist, \<^verbatim>\<open>deleted\<close> and \<^verbatim>\<open>keyremoved\<close>.
\<close>

fun slremCommand_loop :: "redisClient \<Rightarrow> robj \<Rightarrow> skiplist \<Rightarrow> int \<Rightarrow> nat \<Rightarrow> nat \<Rightarrow> (redisClient \<times> skiplist \<times> int \<times> int) res option" where
  "slremCommand_loop c key sl deleted 0 i = ret (c, sl, deleted, 0)"
| "slremCommand_loop c key sl deleted (Suc n) i =
     bindR (arg c (i + 2)) (\<lambda>sc.
     bindR (slDeleteScore sl sc) (\<lambda>(sl1, d).
       if length_sl sl1 = 0
       then ret (dbDelete c key, sl1, wrap_int (deleted + d), 1)
       else slremCommand_loop c key sl1 (wrap_int (deleted + d)) n (Suc i)))"

definition slremCommand :: "redisClient \<Rightarrow> redisClient res option" where
  "slremCommand c =
     (if argc c mod 2 = 0 then ret (addReply c SyntaxErr)
      else
        bindR (arg c 1) (\<lambda>key.
          case lookupKeyWrite c key of
            None \<Rightarrow> ret (addReply c EmptyMultiBulk)
          | Some slobj \<Rightarrow>
              if wrong_type slobj then ret (addReply c EmptyMultiBulk)
              else
                bindR (skiplist_of slobj) (\<lambda>sl.
                bindR (slremCommand_loop c key sl 0 (argc c - 2) 0) (\<lambda>(c1, sl1, deleted, keyremoved).
                  let c2 = addReply (store_skiplist c1 key sl1) (ReplyLongLong deleted)
                  in ret (if deleted \<noteq> 0
                          then (let c3 = addEvent (addEvent c2 (SignalModifiedKey (obj_bytes key)))
                                           (NotifyKeyspaceEvent REDIS_NOTIFY_LIST ''slrem'' (obj_bytes key))
                                in if keyremoved \<noteq> 0
                                   then addEvent c3 (NotifyKeyspaceEvent REDIS_NOTIFY_GENERIC ''del'' (obj_bytes key))
                                   else c3)
                          else c2)))))"

subsection \<open>\<^verbatim>\<open>slallCommand\<close>\<close>

text \<open>\<^verbatim>\<open>addReplyBulk\<close> reads the object it is given.\<close>

definition addReplyBulk :: "redisClient \<Rightarrow> robj option \<Rightarrow> redisClient res option" where
  "addReplyBulk c p = bindR (obj_of p) (\<lambda>v. ret (addReply c (ReplyBulk v)))"

definition addReplyNode :: "redisClient \<Rightarrow> slNode \<Rightarrow> redisClient res option" where
  "addReplyNode c n = bindR (addReplyBulk c (score n)) (\<lambda>c1. addReplyBulk c1 (obj n))"

partial_function (option) slallCommand_loop :: "skiplist \<Rightarrow> redisClient \<Rightarrow> nat option \<Rightarrow> int \<Rightarrow> (redisClient \<times> int) res option" where
  "slallCommand_loop sl c x len =
     (case x of
        None \<Rightarrow> Some (Ok (c, len))
      | Some xa \<Rightarrow>
          (case node_at sl xa of
             None \<Rightarrow> None
           | Some Crash \<Rightarrow> Some Crash
           | Some (Ok xn) \<Rightarrow>
               (case addReplyNode c xn of
                  None \<Rightarrow> None
                | Some Crash \<Rightarrow> Some Crash
                | Some (Ok c1) \<Rightarrow>
                    if 0 < length (forward xn)
                    then slallCommand_loop sl c1 (forward xn ! 0) (wrap_int (len + 1))
                    else Some Crash)))"

declare slallCommand_loop.simps [code]

definition slallCommand :: "redisClient \<Rightarrow> redisClient res option" where
  "slallCommand c =
     bindR (arg c 1) (\<lambda>key.
       case lookupKeyRead c key of
         None \<Rightarrow> ret (addReply c EmptyMultiBulk)
       | Some slobj \<Rightarrow>
           if wrong_type slobj then ret (addReply c EmptyMultiBulk)
           else
             bindR (skiplist_of slobj) (\<lambda>sl.
             bindR (get_forward sl (header sl) 0) (\<lambda>x.
               let (replylen, c1) = addDeferredMultiBulkLength c
               in bindR (slallCommand_loop sl c1 x 0) (\<lambda>(c2, len).
                    ret (setDeferredMultiBulkLength c2 replylen (wrap_int (2 * len)))))))"

subsection \<open>\<^verbatim>\<open>slrangeCommand\<close>\<close>

partial_function (option) slrangeCommand_loop :: "skiplist \<Rightarrow> redisClient \<Rightarrow> nat \<Rightarrow> nat option \<Rightarrow> int \<Rightarrow> (redisClient \<times> int) res option" where
  "slrangeCommand_loop sl c highend next len =
     (case next of
        None \<Rightarrow> Some (Ok (c, len))
      | Some na \<Rightarrow>
          if na \<noteq> highend then
            (case node_at sl na of
               None \<Rightarrow> None
             | Some Crash \<Rightarrow> Some Crash
             | Some (Ok nn) \<Rightarrow>
                 (case addReplyNode c nn of
                    None \<Rightarrow> None
                  | Some Crash \<Rightarrow> Some Crash
                  | Some (Ok c1) \<Rightarrow>
                      if 0 < length (forward nn)
                      then slrangeCommand_loop sl c1 highend (forward nn ! 0) (wrap_int (len + 1))
                      else Some Crash))
          else Some (Ok (c, len)))"

declare slrangeCommand_loop.simps [code]

text \<open>The part of the command that follows the two searches.\<close>

definition slrangeCommand_emit :: "redisClient \<Rightarrow> skiplist \<Rightarrow> nat \<Rightarrow> nat \<Rightarrow> redisClient res option" where
  "slrangeCommand_emit c sl lo hi =
     (let (replylen, c1) = addDeferredMultiBulkLength c
      in bindR (slrangeCommand_loop sl c1 hi (Some lo) 1) (\<lambda>(c2, len).
         bindR (node_at sl hi) (\<lambda>hn.
         bindR (addReplyNode c2 hn) (\<lambda>c3.
           ret (setDeferredMultiBulkLength c3 replylen (wrap_int (2 * len)))))))"

definition slrangeCommand :: "redisClient \<Rightarrow> redisClient res option" where
  "slrangeCommand c =
     bindR (arg c 1) (\<lambda>key.
     bindR (arg c 2) (\<lambda>a2.
     bindR (arg c 3) (\<lambda>a3.
       case slParseRange (shared c) a2 a3 of
         None \<Rightarrow> ret (addReply c (ReplyError ''min or max is not valid''))
       | Some rspec \<Rightarrow>
           (case lookupKeyRead c key of
              None \<Rightarrow> ret (addReply c EmptyMultiBulk)
            | Some slobj \<Rightarrow>
                if wrong_type slobj then ret (addReply c WrongTypeErr)
                else
                  bindR (skiplist_of slobj) (\<lambda>sl.
                  bindR (slRangeLowEnd (stack_slot c) sl rspec) (\<lambda>lowend.
                    case lowend of
                      None \<Rightarrow> ret (addReply c EmptyMultiBulk)
                    | Some lo \<Rightarrow>
                        bindR (slRangeHighEnd sl rspec) (\<lambda>highend.
                          case highend of
                            None \<Rightarrow> ret (addReply c EmptyMultiBulk)
                          | Some hi \<Rightarrow> slrangeCommand_emit c sl lo hi)))))))"

subsection \<open>\<^verbatim>\<open>slsearchCommand\<close>\<close>

text \<open>The counter \<^verbatim>\<open>len\<close> of this command is an \<^verbatim>\<open>unsigned long\<close>.\<close>

partial_function (option) slsearchCommand_loop :: "skiplist \<Rightarrow> redisClient \<Rightarrow> robj \<Rightarrow> nat option \<Rightarrow> int \<Rightarrow> (redisClient \<times> int) res option" where
  "slsearchCommand_loop sl c sc x len =
     (case x of
        None \<Rightarrow> Some (Ok (c, len))
      | Some xa \<Rightarrow>
          (case node_at sl xa of
             None \<Rightarrow> None
           | Some Crash \<Rightarrow> Some Crash
           | Some (Ok xn) \<Rightarrow>
               if slCmp (score xn) (Some sc) = 0 then
                 (case addReplyNode c xn of
                    None \<Rightarrow> None
                  | Some Crash \<Rightarrow> Some Crash
                  | Some (Ok c1) \<Rightarrow>
                      if 0 < length (forward xn)
                      then slsearchCommand_loop sl c1 sc (forward xn ! 0)
                             ((len + 1) mod 18446744073709551616)
                      else Some Crash)
               else Some (Ok (c, len))))"

declare slsearchCommand_loop.simps [code]

definition slsearchCommand :: "redisClient \<Rightarrow> redisClient res option" where
  "slsearchCommand c =
     bindR (arg c 1) (\<lambda>key.
     bindR (arg c 2) (\<lambda>sc.
       case lookupKeyRead c key of
         None \<Rightarrow> ret (addReply c EmptyMultiBulk)
       | Some slobj \<Rightarrow>
           if wrong_type slobj then ret (addReply c WrongTypeErr)
           else
             bindR (skiplist_of slobj) (\<lambda>sl.
             bindR (slSearchSmallestNode sl sc) (\<lambda>lowend.
               case lowend of
                 None \<Rightarrow> ret (addReply c EmptyMultiBulk)
               | Some lo \<Rightarrow>
                   (let (replylen, c1) = addDeferredMultiBulkLength c
                    in bindR (slsearchCommand_loop sl c1 sc (Some lo) 0) (\<lambda>(c2, len).
                         ret (setDeferredMultiBulkLength c2 replylen
                                ((2 * len) mod 18446744073709551616))))))))"

subsection \<open>\<^verbatim>\<open>slcardCommand\<close>\<close>

definition slcardCommand :: "redisClient \<Rightarrow> redisClient res option" where
  "slcardCommand c =
     bindR (arg c 1) (\<lambda>key.
       case lookupKeyRead c key of
         None \<Rightarrow> ret (addReply c (ReplyDouble 0))
       | Some slobj \<Rightarrow>
           if wrong_type slobj then ret (addReply c (ReplyDouble 0))
           else bindR (skiplist_of slobj) (\<lambda>sl. ret (addReply c (ReplyDouble (length_sl sl)))))"

section \<open>Running commands\<close>

text \<open>
  The server starts with an empty key space.  Its dispatcher hands a command the
  arguments as raw string objects, the command name first, and an empty reply queue.
  \<open>startup rnd g\<close> is the state after start-up, where \<open>rnd\<close> are the results
  \<^verbatim>\<open>random()\<close> will give and \<open>g\<close> is what the uninitialised stack slot holds.
\<close>

definition startup :: "(nat \<Rightarrow> int) \<Rightarrow> int \<Rightarrow> redisClient" where
  "startup rnd g =
     \<lparr>argv = [], db = Map.empty, replies = [], dirty = 0, events = [],
      shared = \<lparr>minstring = RawEnc ''minstring'', maxstring = RawEnc ''maxstring''\<rparr>,
      random_src = rnd, random_pos = 0, stack_slot = g\<rparr>"

definition call :: "(redisClient \<Rightarrow> redisClient res option) \<Rightarrow> string list \<Rightarrow> redisClient \<Rightarrow> redisClient res option" where
  "call cmd args c = cmd (c\<lparr>argv := map RawEnc args, replies := []\<rparr>)"

definition replies_of :: "redisClient res option \<Rightarrow> reply list res option" where
  "replies_of m = bindR m (\<lambda>c. ret (replies c))"

text \<open>
  The skiplist stored under a key after a run, for looking at the functions below the
  commands; there is none when the key is absent.
\<close>

definition skiplist_at :: "string \<Rightarrow> redisClient res option \<Rightarrow> skiplist res option" where
  "skiplist_at k m =
     bindR m (\<lambda>c. case db c k of None \<Rightarrow> None | Some slobj \<Rightarrow> skiplist_of slobj)"

text \<open>A source of random numbers under which every new node gets level 1.\<close>

definition flat :: "nat \<Rightarrow> int" where
  "flat k = 65535"

text \<open>
  A source under which the first node inserted gets level 1 and the second level 2:
  the second call of \<^verbatim>\<open>slRandomLevel\<close> draws 0 and then 65535.
\<close>

definition second_taller :: "nat \<Rightarrow> int" where
  "second_taller k = (if k = 1 then 0 else 65535)"

text \<open>A key space in which the key \<open>k\<close> holds a plain string.\<close>

definition string_at_k :: "redisClient" where
  "string_at_k =
     (startup flat 0)\<lparr>db := [''k'' \<mapsto> \<lparr>vtype = REDIS_STRING, vencoding = REDIS_ENCODING_RAW, vptr = OtherPtr\<rparr>]\<rparr>"

subsection \<open>The range grammar in the words of the specification\<close>

text \<open>
  A bound is malformed when it is a \<open>+\<close> or a \<open>-\<close> followed by a byte other than NUL.
\<close>

fun sentinel_with_tail :: "string \<Rightarrow> bool" where
  "sentinel_with_tail (c # d # rest) = ((c = CHR ''+'' \<or> c = CHR ''-'') \<and> d \<noteq> CHR 0x00)"
| "sentinel_with_tail s = False"

text \<open>
  What a well-formed bound stands for: \<open>+\<close> and \<open>-\<close> for the two sentinels, inclusive;
  \<open>(\<close> followed by bytes for these bytes, exclusive; \<open>[\<close> followed by bytes for these
  bytes, inclusive; any other string for itself, inclusive.
\<close>

fun bound_meaning :: "sharedObjectsStruct \<Rightarrow> string \<Rightarrow> robj \<times> bool" where
  "bound_meaning sh [] = (RawEnc [], False)"
| "bound_meaning sh (c # rest) =
     (if c = CHR ''+'' then (maxstring sh, False)
      else if c = CHR ''-'' then (minstring sh, False)
      else if c = CHR ''('' then (RawEnc rest, True)
      else if c = CHR ''['' then (RawEnc rest, False)
      else (RawEnc (c # rest), False))"

section \<open>The claims\<close>

subsection \<open>C9: \<^verbatim>\<open>slCmp\<close> on integer-encoded values\<close>

text \<open>
  C9 states that \<^verbatim>\<open>slCmp\<close> orders two integer-encoded values exactly as their
  integers.  The code stores the difference of two \<^verbatim>\<open>long\<close> values in an \<^verbatim>\<open>int\<close>:
  the arguments \<open>4294967296\<close> and \<open>0\<close>, both of which the encoder produces, compare
  as equal, and \<open>2147483648\<close> compares as less than \<open>0\<close>.
\<close>

theorem slCmp_truncates_long_difference:
  "tryObjectEncoding (RawEnc ''4294967296'') = IntEnc 4294967296
   \<and> tryObjectEncoding (RawEnc ''2147483648'') = IntEnc 2147483648
   \<and> tryObjectEncoding (RawEnc ''0'') = IntEnc 0
   \<and> slCmp (Some (IntEnc 4294967296)) (Some (IntEnc 0)) = 0
   \<and> slCmp (Some (IntEnc 2147483648)) (Some (IntEnc 0)) < 0"
  by (simp add: tryObjectEncoding_def string2l_def digit_value_def ll2string_def
      decimal_digits.simps digit_char_def wrap_int_def wrap_long_def)

subsection \<open>C10: parsing a range\<close>

lemma slParseRangeItem_None:
  "(slParseRangeItem sh s = None) = sentinel_with_tail s"
proof (cases s)
  case Nil
  then show ?thesis by (simp add: slParseRangeItem_def sds_at_def)
next
  case (Cons c t)
  then show ?thesis
    by (cases t) (auto simp add: slParseRangeItem_def sds_at_def)
qed

lemma slParseRangeItem_Some:
  "\<not> sentinel_with_tail s \<Longrightarrow> slParseRangeItem sh s = Some (bound_meaning sh s)"
proof (cases s)
  case Nil
  then show ?thesis by (simp add: slParseRangeItem_def sds_at_def)
next
  case (Cons c t)
  assume "\<not> sentinel_with_tail s"
  with Cons show ?thesis
    by (cases t) (auto simp add: slParseRangeItem_def sds_at_def)
qed

lemma slParseRange_raw:
  "slParseRange sh (RawEnc a) (RawEnc b) =
     (if sentinel_with_tail a \<or> sentinel_with_tail b then None
      else Some \<lparr>min_spec = fst (bound_meaning sh a), max_spec = fst (bound_meaning sh b),
                 minex = snd (bound_meaning sh a), maxex = snd (bound_meaning sh b)\<rparr>)"
proof (cases "sentinel_with_tail a")
  case True
  then have "slParseRangeItem sh a = None"
    by (simp add: slParseRangeItem_None)
  with True show ?thesis by simp
next
  case a_ok: False
  then have pa: "slParseRangeItem sh a = Some (bound_meaning sh a)"
    by (rule slParseRangeItem_Some)
  show ?thesis
  proof (cases "sentinel_with_tail b")
    case True
    then have "slParseRangeItem sh b = None"
      by (simp add: slParseRangeItem_None)
    with True pa show ?thesis by (simp split: prod.splits)
  next
    case False
    then have "slParseRangeItem sh b = Some (bound_meaning sh b)"
      by (rule slParseRangeItem_Some)
    with False a_ok pa show ?thesis by (simp split: prod.splits)
  qed
qed

text \<open>
  C10, amended: \<^verbatim>\<open>slParseRange\<close> succeeds iff neither bound is integer-encoded and
  neither bound is a \<open>+\<close> or \<open>-\<close> followed by a byte other than NUL.  On success each
  bound has the meaning the grammar gives it: \<open>+\<close> the maximum sentinel and \<open>-\<close> the
  minimum sentinel, inclusive; \<open>(\<close> the remaining bytes, exclusive; \<open>[\<close> the
  remaining bytes, inclusive; any other string itself, inclusive.  On failure
  \<^verbatim>\<open>slrangeCommand\<close> queues the error \<open>min or max is not valid\<close> and changes nothing
  else, so no container is mutated.
\<close>

theorem slParseRange_amended:
  "(slParseRange sh mn mx \<noteq> None) =
     (\<not> is_int_encoded mn \<and> \<not> is_int_encoded mx
      \<and> \<not> sentinel_with_tail (obj_bytes mn) \<and> \<not> sentinel_with_tail (obj_bytes mx))
   \<and> (slParseRange sh mn mx \<noteq> None \<longrightarrow>
        slParseRange sh mn mx =
          Some \<lparr>min_spec = fst (bound_meaning sh (obj_bytes mn)),
                max_spec = fst (bound_meaning sh (obj_bytes mx)),
                minex = snd (bound_meaning sh (obj_bytes mn)),
                maxex = snd (bound_meaning sh (obj_bytes mx))\<rparr>)
   \<and> (3 < length (argv c) \<and> slParseRange (shared c) (argv c ! 2) (argv c ! 3) = None \<longrightarrow>
        slrangeCommand c =
          Some (Ok (c\<lparr>replies := replies c @ [ReplyError ''min or max is not valid'']\<rparr>)))"
proof (intro conjI impI)
  show "(slParseRange sh mn mx \<noteq> None) =
     (\<not> is_int_encoded mn \<and> \<not> is_int_encoded mx
      \<and> \<not> sentinel_with_tail (obj_bytes mn) \<and> \<not> sentinel_with_tail (obj_bytes mx))"
    by (cases mn; cases mx) (simp_all add: slParseRange_raw del: slParseRange.simps(1))
next
  assume "slParseRange sh mn mx \<noteq> None"
  then show "slParseRange sh mn mx =
          Some \<lparr>min_spec = fst (bound_meaning sh (obj_bytes mn)),
                max_spec = fst (bound_meaning sh (obj_bytes mx)),
                minex = snd (bound_meaning sh (obj_bytes mn)),
                maxex = snd (bound_meaning sh (obj_bytes mx))\<rparr>"
    by (cases mn; cases mx) (simp_all add: slParseRange_raw del: slParseRange.simps(1) split: if_splits)
next
  assume "3 < length (argv c) \<and> slParseRange (shared c) (argv c ! 2) (argv c ! 3) = None"
  then show "slrangeCommand c =
          Some (Ok (c\<lparr>replies := replies c @ [ReplyError ''min or max is not valid'']\<rparr>))"
    by (simp add: slrangeCommand_def arg_def bindR_def ret_def addReply_def)
qed

theorem slParseRange_amended_witness:
  "slParseRange (shared (startup flat 0)) (RawEnc ''(a'') (RawEnc ''+'') =
     Some \<lparr>min_spec = RawEnc ''a'', max_spec = RawEnc ''maxstring'', minex = True, maxex = False\<rparr>
   \<and> slrangeCommand ((startup flat 0)\<lparr>argv := map RawEnc [''slrange'', ''k'', ''+x'', ''z'']\<rparr>) =
       Some (Ok ((startup flat 0)\<lparr>argv := map RawEnc [''slrange'', ''k'', ''+x'', ''z''],
                   replies := [ReplyError ''min or max is not valid'']\<rparr>))"
  using slParseRange_amended [of "shared (startup flat 0)" "RawEnc ''(a''" "RawEnc ''+''"
      "(startup flat 0)\<lparr>argv := map RawEnc [''slrange'', ''k'', ''+x'', ''z'']\<rparr>"]
  by (simp add: startup_def slParseRangeItem_def sds_at_def)

text \<open>
  C10 as stated fails: the bound made of \<open>+\<close>, a NUL byte and \<open>x\<close> is a \<open>+\<close> followed
  by further characters, and \<^verbatim>\<open>slParseRange\<close> accepts it as the maximum sentinel, since
  the check reads only \<^verbatim>\<open>c[1]\<close> and compares it with the terminator.
\<close>

theorem slParseRange_accepts_sentinel_before_NUL:
  "slParseRange \<lparr>minstring = RawEnc ''minstring'', maxstring = RawEnc ''maxstring''\<rparr>
     (RawEnc [CHR ''+'', CHR 0x00, CHR ''x'']) (RawEnc ''z'') =
   Some \<lparr>min_spec = RawEnc ''maxstring'', max_spec = RawEnc ''z'', minex = False, maxex = False\<rparr>"
  by (simp add: slParseRangeItem_def sds_at_def)

subsection \<open>C6: a key that holds no skiplist\<close>

text \<open>
  C6, amended: when the named key exists but does not hold a skiplist-encoded value,
  \<^verbatim>\<open>slsearchCommand\<close> and, given a well-formed range, \<^verbatim>\<open>slrangeCommand\<close> queue the
  wrong-type reply; \<^verbatim>\<open>slremCommand\<close>, given an odd number of arguments, and
  \<^verbatim>\<open>slallCommand\<close> queue the empty multi-bulk reply; \<^verbatim>\<open>slcardCommand\<close> replies 0.
  Each of the five changes nothing but the reply queue, so the key's value and the
  key/value table stay as they were.  Nothing is said about \<^verbatim>\<open>sladdCommand\<close>.
\<close>

theorem wrong_type_key_amended:
  "1 < length (argv c) \<Longrightarrow> db c (obj_bytes (argv c ! 1)) = Some slobj \<Longrightarrow> wrong_type slobj \<Longrightarrow>
   (2 < length (argv c) \<longrightarrow>
      slsearchCommand c = Some (Ok (c\<lparr>replies := replies c @ [WrongTypeErr]\<rparr>)))
   \<and> (3 < length (argv c) \<and> slParseRange (shared c) (argv c ! 2) (argv c ! 3) \<noteq> None \<longrightarrow>
      slrangeCommand c = Some (Ok (c\<lparr>replies := replies c @ [WrongTypeErr]\<rparr>)))
   \<and> (odd (length (argv c)) \<longrightarrow>
      slremCommand c = Some (Ok (c\<lparr>replies := replies c @ [EmptyMultiBulk]\<rparr>)))
   \<and> slallCommand c = Some (Ok (c\<lparr>replies := replies c @ [EmptyMultiBulk]\<rparr>))
   \<and> slcardCommand c = Some (Ok (c\<lparr>replies := replies c @ [ReplyDouble 0]\<rparr>))"
  by (auto simp add: slsearchCommand_def slrangeCommand_def slremCommand_def slallCommand_def
      slcardCommand_def arg_def argc_def bindR_def ret_def addReply_def lookupKeyRead_def
      lookupKeyWrite_def)

theorem wrong_type_key_amended_witness:
  "slsearchCommand (string_at_k\<lparr>argv := map RawEnc [''slrem'', ''k'', ''a'', ''b'', ''c'']\<rparr>) =
     Some (Ok (string_at_k\<lparr>argv := map RawEnc [''slrem'', ''k'', ''a'', ''b'', ''c''],
                 replies := [WrongTypeErr]\<rparr>))
   \<and> slrangeCommand (string_at_k\<lparr>argv := map RawEnc [''slrem'', ''k'', ''a'', ''b'', ''c'']\<rparr>) =
     Some (Ok (string_at_k\<lparr>argv := map RawEnc [''slrem'', ''k'', ''a'', ''b'', ''c''],
                 replies := [WrongTypeErr]\<rparr>))
   \<and> slremCommand (string_at_k\<lparr>argv := map RawEnc [''slrem'', ''k'', ''a'', ''b'', ''c'']\<rparr>) =
     Some (Ok (string_at_k\<lparr>argv := map RawEnc [''slrem'', ''k'', ''a'', ''b'', ''c''],
                 replies := [EmptyMultiBulk]\<rparr>))
   \<and> slallCommand (string_at_k\<lparr>argv := map RawEnc [''slrem'', ''k'', ''a'', ''b'', ''c'']\<rparr>) =
     Some (Ok (string_at_k\<lparr>argv := map RawEnc [''slrem'', ''k'', ''a'', ''b'', ''c''],
                 replies := [EmptyMultiBulk]\<rparr>))
   \<and> slcardCommand (string_at_k\<lparr>argv := map RawEnc [''slrem'', ''k'', ''a'', ''b'', ''c'']\<rparr>) =
     Some (Ok (string_at_k\<lparr>argv := map RawEnc [''slrem'', ''k'', ''a'', ''b'', ''c''],
                 replies := [ReplyDouble 0]\<rparr>))"
  using wrong_type_key_amended
    [of "string_at_k\<lparr>argv := map RawEnc [''slrem'', ''k'', ''a'', ''b'', ''c'']\<rparr>"
        "\<lparr>vtype = REDIS_STRING, vencoding = REDIS_ENCODING_RAW, vptr = OtherPtr\<rparr>"]
  by (simp add: string_at_k_def startup_def wrong_type_def slParseRangeItem_def sds_at_def)

text \<open>
  C6 as stated fails for \<^verbatim>\<open>slcardCommand\<close>: on a key that holds a plain string it
  replies 0 where the claim has the wrong-type reply.
\<close>

theorem slcard_on_string_replies_zero:
  "replies_of (call slcardCommand [''slcard'', ''k''] string_at_k) = Some (Ok [ReplyDouble 0])
   \<and> replies_of (call slcardCommand [''slcard'', ''k''] string_at_k) \<noteq> Some (Ok [WrongTypeErr])"
  by (simp add: replies_of_def call_def slcardCommand_def arg_def bindR_def ret_def
      addReply_def lookupKeyRead_def string_at_k_def startup_def wrong_type_def)

subsection \<open>C1: \<^verbatim>\<open>slSearchSmallestNode\<close> and \<^verbatim>\<open>slsearchCommand\<close>\<close>

text \<open>
  C1 states that \<^verbatim>\<open>slSearchSmallestNode\<close> returns the first node of the score's
  equivalence class, so that \<^verbatim>\<open>SLSEARCH\<close> lists the whole class.  The backtracking
  loop tests \<^verbatim>\<open>slCmp(x->score, score) > 0\<close> on a node whose score is equal to the
  target, so it never steps back.  After \<^verbatim>\<open>SLADD k x a\<close> with a node of level 1 and
  \<^verbatim>\<open>SLADD k x b\<close> with a node of level 2, the container holds \<open>(x, a)\<close> and
  \<open>(x, b)\<close>, and \<^verbatim>\<open>SLSEARCH k x\<close> lists \<open>(x, b)\<close> alone.
\<close>

theorem slsearch_skips_lower_members:
  "replies_of
     (bindR (call sladdCommand [''sladd'', ''k'', ''x'', ''a''] (startup second_taller 0)) (\<lambda>c.
      bindR (call sladdCommand [''sladd'', ''k'', ''x'', ''b''] c)
        (call slallCommand [''slall'', ''k''])))
   = Some (Ok [MultiBulkLen 4, ReplyBulk (RawEnc ''x''), ReplyBulk (RawEnc ''a''),
               ReplyBulk (RawEnc ''x''), ReplyBulk (RawEnc ''b'')])
   \<and> replies_of
     (bindR (call sladdCommand [''sladd'', ''k'', ''x'', ''a''] (startup second_taller 0)) (\<lambda>c.
      bindR (call sladdCommand [''sladd'', ''k'', ''x'', ''b''] c)
        (call slsearchCommand [''slsearch'', ''k'', ''x''])))
   = Some (Ok [MultiBulkLen 2, ReplyBulk (RawEnc ''x''), ReplyBulk (RawEnc ''b'')])"
  by code_simp

subsection \<open>C2: \<^verbatim>\<open>SLRANGE\<close> with equal inclusive bounds\<close>

text \<open>
  C2 states that \<^verbatim>\<open>SLRANGE key [v [v\<close> lists the class of \<open>v\<close> and nothing when no
  node has score \<open>v\<close>.  With the scores \<open>a\<close> and \<open>c\<close> stored, \<^verbatim>\<open>SLRANGE k [b [b\<close>
  lists the node of score \<open>c\<close>: both searches return the first node above \<open>b\<close>.
\<close>

theorem slrange_equal_bounds_lists_next_node:
  "replies_of
     (bindR (call sladdCommand [''sladd'', ''k'', ''a'', ''x'', ''c'', ''y''] (startup flat 0))
        (call slrangeCommand [''slrange'', ''k'', ''[b'', ''[b'']))
   = Some (Ok [MultiBulkLen 2, ReplyBulk (RawEnc ''c''), ReplyBulk (RawEnc ''y'')])"
  by code_simp

subsection \<open>C3: \<^verbatim>\<open>SLRANGE\<close> with an exclusive minimum equal to the maximum\<close>

text \<open>
  C3 states that \<^verbatim>\<open>SLRANGE key (v v\<close> is empty.  With the scores \<open>a\<close> and \<open>b\<close>
  stored, \<^verbatim>\<open>SLRANGE k (a a\<close> lists the node of score \<open>b\<close> and then the node of score
  \<open>a\<close>: the low end lies behind the high end, and the loop of the command runs from
  the low end to the end of the list.
\<close>

theorem slrange_exclusive_equal_bounds_not_empty:
  "replies_of
     (bindR (call sladdCommand [''sladd'', ''k'', ''a'', ''x'', ''b'', ''y''] (startup flat 0))
        (call slrangeCommand [''slrange'', ''k'', ''(a'', ''a'']))
   = Some (Ok [MultiBulkLen 4, ReplyBulk (RawEnc ''b''), ReplyBulk (RawEnc ''y''),
               ReplyBulk (RawEnc ''a''), ReplyBulk (RawEnc ''x'')])"
  by code_simp

subsection \<open>C4: the order of the level-0 chain\<close>

text \<open>
  C4 states that in every state reached by \<^verbatim>\<open>SLADD\<close> and \<^verbatim>\<open>SLREM\<close> the level-0
  chain is strictly increasing, so that no pair occurs twice.  \<^verbatim>\<open>slInsert\<close> orders
  integer-encoded members by \<^verbatim>\<open>slCmp\<close>, as numbers, and \<^verbatim>\<open>slDelete\<close> looks for them
  with \<^verbatim>\<open>compareStringObjects\<close>, as strings.  After \<^verbatim>\<open>SLADD k 1 9\<close>,
  \<^verbatim>\<open>SLADD k 1 10\<close> and \<^verbatim>\<open>SLADD k 1 10\<close> the chain, as \<^verbatim>\<open>SLALL\<close> lists it, holds the
  pair \<open>(1, 10)\<close> twice: 9 is below 10 for \<^verbatim>\<open>slCmp\<close> and above it for
  \<^verbatim>\<open>compareStringObjects\<close>.  The same happens by \<^verbatim>\<open>slCmp\<close> alone, which puts the
  integer-encoded scores 0, 1431655765 and 2863311530 in a cycle: after adding the three
  with one member, adding the second again leaves it in the chain twice, and the chain
  is not in the order of the integers.
\<close>

theorem sladd_duplicates_pair_in_chain:
  "replies_of
     (bindR (call sladdCommand [''sladd'', ''k'', ''1'', ''9''] (startup flat 0)) (\<lambda>c.
      bindR (call sladdCommand [''sladd'', ''k'', ''1'', ''10''] c) (\<lambda>c.
      bindR (call sladdCommand [''sladd'', ''k'', ''1'', ''10''] c)
        (call slallCommand [''slall'', ''k'']))))
   = Some (Ok [MultiBulkLen 6, ReplyBulk (IntEnc 1), ReplyBulk (IntEnc 9),
               ReplyBulk (IntEnc 1), ReplyBulk (IntEnc 10),
               ReplyBulk (IntEnc 1), ReplyBulk (IntEnc 10)])
   \<and> replies_of
     (bindR (call sladdCommand [''sladd'', ''k'', ''0'', ''m''] (startup flat 0)) (\<lambda>c.
      bindR (call sladdCommand [''sladd'', ''k'', ''1431655765'', ''m''] c) (\<lambda>c.
      bindR (call sladdCommand [''sladd'', ''k'', ''2863311530'', ''m''] c) (\<lambda>c.
      bindR (call sladdCommand [''sladd'', ''k'', ''1431655765'', ''m''] c)
        (call slallCommand [''slall'', ''k''])))))
   = Some (Ok [MultiBulkLen 8, ReplyBulk (IntEnc 1431655765), ReplyBulk (RawEnc ''m''),
               ReplyBulk (IntEnc 2863311530), ReplyBulk (RawEnc ''m''),
               ReplyBulk (IntEnc 0), ReplyBulk (RawEnc ''m''),
               ReplyBulk (IntEnc 1431655765), ReplyBulk (RawEnc ''m'')])
   \<and> slCmp (Some (IntEnc 9)) (Some (IntEnc 10)) < 0
   \<and> compareStringObjects (IntEnc 9) (IntEnc 10) > 0
   \<and> slCmp (Some (IntEnc 0)) (Some (IntEnc 1431655765)) < 0
   \<and> slCmp (Some (IntEnc 1431655765)) (Some (IntEnc 2863311530)) < 0
   \<and> slCmp (Some (IntEnc 2863311530)) (Some (IntEnc 0)) < 0"
  by code_simp

subsection \<open>C5: \<^verbatim>\<open>SLADD\<close> of the same pair twice\<close>

text \<open>
  C5 states that the second of two equal \<^verbatim>\<open>SLADD\<close> commands replies 0 and leaves the
  container as it is.  In the container that holds \<open>(1, 9)\<close>, both \<^verbatim>\<open>SLADD k 1 10\<close>
  commands reply 1, and the cardinality goes from 2 after the first to 3 after the
  second.  Likewise, in the container that holds \<open>(s, 2147483648)\<close>, the second
  \<^verbatim>\<open>SLADD k s 0\<close> replies 1 again.
\<close>

theorem sladd_twice_adds_twice:
  "replies_of
     (bindR (call sladdCommand [''sladd'', ''k'', ''1'', ''9''] (startup flat 0))
        (call sladdCommand [''sladd'', ''k'', ''1'', ''10'']))
   = Some (Ok [ReplyLongLong 1])
   \<and> replies_of
     (bindR (call sladdCommand [''sladd'', ''k'', ''1'', ''9''] (startup flat 0)) (\<lambda>c.
      bindR (call sladdCommand [''sladd'', ''k'', ''1'', ''10''] c)
        (call slcardCommand [''slcard'', ''k''])))
   = Some (Ok [ReplyDouble 2])
   \<and> replies_of
     (bindR (call sladdCommand [''sladd'', ''k'', ''1'', ''9''] (startup flat 0)) (\<lambda>c.
      bindR (call sladdCommand [''sladd'', ''k'', ''1'', ''10''] c)
        (call sladdCommand [''sladd'', ''k'', ''1'', ''10''])))
   = Some (Ok [ReplyLongLong 1])
   \<and> replies_of
     (bindR (call sladdCommand [''sladd'', ''k'', ''1'', ''9''] (startup flat 0)) (\<lambda>c.
      bindR (call sladdCommand [''sladd'', ''k'', ''1'', ''10''] c) (\<lambda>c.
      bindR (call sladdCommand [''sladd'', ''k'', ''1'', ''10''] c)
        (call slcardCommand [''slcard'', ''k'']))))
   = Some (Ok [ReplyDouble 3])
   \<and> replies_of
     (bindR (call sladdCommand [''sladd'', ''k'', ''s'', ''2147483648''] (startup flat 0)) (\<lambda>c.
      bindR (call sladdCommand [''sladd'', ''k'', ''s'', ''0''] c)
        (call sladdCommand [''sladd'', ''k'', ''s'', ''0''])))
   = Some (Ok [ReplyLongLong 1])"
  by code_simp

subsection \<open>C7: \<^verbatim>\<open>SLREM\<close>\<close>

text \<open>
  C7 states that \<^verbatim>\<open>SLREM\<close> deletes every node whose score is equal to an argument.
  \<^verbatim>\<open>sladdCommand\<close> encodes its scores and \<^verbatim>\<open>slremCommand\<close> does not.  After
  \<^verbatim>\<open>SLADD k 9 a 10 b\<close> the chain is ordered by number; \<^verbatim>\<open>slDeleteScore\<close> compares the
  stored 9 with the string \<open>10\<close> byte by byte, finds it greater, stops in front of it
  and deletes nothing: \<^verbatim>\<open>SLREM k 10\<close> replies 0 and the node \<open>(10, b)\<close>, whose score
  \<^verbatim>\<open>slCmp\<close> finds equal to the argument, is still listed.
\<close>

theorem slrem_misses_encoded_score:
  "replies_of
     (bindR (call sladdCommand [''sladd'', ''k'', ''9'', ''a'', ''10'', ''b''] (startup flat 0))
        (call slremCommand [''slrem'', ''k'', ''10'']))
   = Some (Ok [ReplyLongLong 0])
   \<and> replies_of
     (bindR (call sladdCommand [''sladd'', ''k'', ''9'', ''a'', ''10'', ''b''] (startup flat 0)) (\<lambda>c.
      bindR (call slremCommand [''slrem'', ''k'', ''10''] c)
        (call slallCommand [''slall'', ''k''])))
   = Some (Ok [MultiBulkLen 4, ReplyBulk (IntEnc 9), ReplyBulk (RawEnc ''a''),
               ReplyBulk (IntEnc 10), ReplyBulk (RawEnc ''b'')])
   \<and> slCmp (Some (IntEnc 9)) (Some (IntEnc 10)) < 0
   \<and> slCmp (Some (IntEnc 9)) (Some (RawEnc ''10'')) > 0
   \<and> slCmp (Some (IntEnc 10)) (Some (RawEnc ''10'')) = 0"
  by code_simp

subsection \<open>C8: null pointers in \<^verbatim>\<open>slRangeLowEnd\<close>\<close>

text \<open>
  C8 states that \<^verbatim>\<open>slRangeLowEnd\<close> never reads through a null pointer.  It does in
  two ways.  \<^verbatim>\<open>slRangeSmallestNode\<close> returns \<^verbatim>\<open>NULL\<close> from its early-out without
  assigning \<^verbatim>\<open>*foundexactvalue\<close>: after \<^verbatim>\<open>SLADD k 5 a\<close>, the range of
  \<^verbatim>\<open>SLRANGE k (1 3\<close> and a non-zero value in the uninitialised variable, it returns
  the null pointer with the flag as it was, and the loop of \<^verbatim>\<open>slRangeLowEnd\<close> reads
  \<^verbatim>\<open>smallest->score\<close>.  And \<^verbatim>\<open>SLADD k\<close> without pairs creates an empty container,
  in which the early-out itself reads the score of a first node that does not exist.
\<close>

theorem slRangeLowEnd_reads_null:
  "bindR (skiplist_at ''k'' (call sladdCommand [''sladd'', ''k'', ''5'', ''a''] (startup flat 1)))
     (\<lambda>sl. slRangeSmallestNode sl
        \<lparr>min_spec = RawEnc ''1'', max_spec = RawEnc ''3'', minex = True, maxex = False\<rparr> 1)
   = Some (Ok (None, 1))
   \<and> bindR (skiplist_at ''k'' (call sladdCommand [''sladd'', ''k'', ''5'', ''a''] (startup flat 1)))
     (\<lambda>sl. slRangeLowEnd 1 sl
        \<lparr>min_spec = RawEnc ''1'', max_spec = RawEnc ''3'', minex = True, maxex = False\<rparr>)
   = Some Crash
   \<and> replies_of
     (bindR (call sladdCommand [''sladd'', ''k'', ''5'', ''a''] (startup flat 1))
        (call slrangeCommand [''slrange'', ''k'', ''(1'', ''3''])) = Some Crash
   \<and> bindR (skiplist_at ''k'' (call sladdCommand [''sladd'', ''k''] (startup flat 0)))
     (\<lambda>sl. get_forward sl (header sl) 0) = Some (Ok None)
   \<and> bindR (skiplist_at ''k'' (call sladdCommand [''sladd'', ''k''] (startup flat 0)))
     (\<lambda>sl. slRangeLowEnd 0 sl
        \<lparr>min_spec = RawEnc ''a'', max_spec = RawEnc ''b'', minex = False, maxex = False\<rparr>)
   = Some Crash"
  by code_simp

end
